theory Spec2Isabelle
  imports Main "HOL-Library.Sublist"
begin

section \<open>ADB2RE wrapper: a shallow embedding of \<^verbatim>\<open>adb2re.py\<close>\<close>

text \<open>
  The class \<^verbatim>\<open>Adb2re\<close> accumulates a request list, renders option strings, calls the
  ADB2RE stored procedure and offers text assertions over the DDL and the report it
  returns. Strings are \<^typ>\<open>string\<close>, the instance is a record that every method takes
  and returns, and every \<^verbatim>\<open>raise\<close> of the source is a value of \<open>error\<close>.
\<close>

subsection \<open>Errors\<close>

text \<open>
  The source raises the one class \<^verbatim>\<open>Exception\<close>, told apart by its message only. The
  constructors below are the kinds the specification names for each raise site; each
  carries the message the source builds. The next four constructors are the built-in
  exceptions that the source's own expressions can raise (a missing dictionary key, a
  row with fewer than two columns, an empty separator, a variable read before it is bound).
  \<open>DatabaseError\<close> is the exception of the database driver, raised by a call on the
  cursor.
\<close>

datatype error =
    ConfigurationError string
  | NotExecutedError string
  | FormatError string
  | ChecklistMismatchError string
  | ReportAssertionError string
  | KeyError string
  | IndexError string
  | ValueError string
  | UnboundLocalError string
  | DatabaseError string

subsection \<open>Python string primitives used by the source\<close>

text \<open>\<^verbatim>\<open>s.find(sub)\<close>: the lowest index at which \<^verbatim>\<open>sub\<close> occurs in \<^verbatim>\<open>s\<close>, or \<open>-1\<close>.\<close>

fun find_str :: "string \<Rightarrow> string \<Rightarrow> int" where
  "find_str [] sub = (if sub = [] then 0 else - 1)"
| "find_str (c # cs) sub =
     (if prefix sub (c # cs) then 0
      else (let r = find_str cs sub in if r < 0 then - 1 else r + 1))"

text \<open>
  \<^verbatim>\<open>s.count(sub)\<close>: the number of non-overlapping occurrences, scanning from the left;
  for the empty \<^verbatim>\<open>sub\<close> it is \<^verbatim>\<open>len(s) + 1\<close>.
\<close>

function count_from :: "string \<Rightarrow> string \<Rightarrow> nat" where
  "count_from [] sub = 0"
| "count_from (c # cs) sub =
     (if sub \<noteq> [] \<and> prefix sub (c # cs)
      then Suc (count_from (drop (length sub) (c # cs)) sub)
      else count_from cs sub)"
  by pat_completeness auto
termination
  by (relation "measure (\<lambda>(s, sub). length s)") (auto simp: neq_Nil_conv)

definition count_str :: "string \<Rightarrow> string \<Rightarrow> nat" where
  "count_str s sub = (if sub = [] then length s + 1 else count_from s sub)"

text \<open>
  \<^verbatim>\<open>s.split(sep)\<close>: the pieces between non-overlapping occurrences of \<^verbatim>\<open>sep\<close>, scanning
  from the left; an empty separator raises \<^verbatim>\<open>ValueError\<close>.
\<close>

function split_from :: "string \<Rightarrow> string \<Rightarrow> string \<Rightarrow> string list" where
  "split_from sep cur [] = [cur]"
| "split_from sep cur (c # cs) =
     (if sep \<noteq> [] \<and> prefix sep (c # cs)
      then cur # split_from sep [] (drop (length sep) (c # cs))
      else split_from sep (cur @ [c]) cs)"
  by pat_completeness auto
termination
  by (relation "measure (\<lambda>(sep, cur, s). length s)") (auto simp: neq_Nil_conv)

definition split_str :: "string \<Rightarrow> string \<Rightarrow> error + string list" where
  "split_str s sep =
     (if sep = [] then Inl (ValueError ''empty separator'') else Inr (split_from sep [] s))"

text \<open>\<^verbatim>\<open>sep.join(xs)\<close>.\<close>

fun join_str :: "string \<Rightarrow> string list \<Rightarrow> string" where
  "join_str sep [] = []"
| "join_str sep [x] = x"
| "join_str sep (x # y # ys) = x @ sep @ join_str sep (y # ys)"

text \<open>\<^verbatim>\<open>str(n)\<close> for a non-negative integer: its decimal digits.\<close>

definition digit_char :: "nat \<Rightarrow> char" where
  "digit_char d = ''0123456789'' ! d"

fun str_nat :: "nat \<Rightarrow> string" where
  "str_nat n = (if n < 10 then [digit_char n] else str_nat (n div 10) @ [digit_char (n mod 10)])"

declare str_nat.simps [simp del]

text \<open>The newline character \<^verbatim>\<open>'\n'\<close>.\<close>

definition newline :: string where
  "newline = [CHR 0x0A]"

text \<open>A value between single quotes, as in \<^verbatim>\<open>"'" + v + "'"\<close>.\<close>

definition quoted :: "string \<Rightarrow> string" where
  "quoted v = [CHR 0x27] @ v @ [CHR 0x27]"

subsection \<open>Configuration and external collaborators\<close>

text \<open>
  The module reads its configuration from names imported with
  \<^verbatim>\<open>from libs.aoc.utility import *\<close>; that module is not part of the sources, so the
  names it supplies are the fields of a configuration record that the definitions take
  as a parameter. The global \<^verbatim>\<open>ACCEPT_FL\<close> is called \<open>ACCEPT_FL_global\<close> here to keep it
  apart from the class attribute of the same name.
\<close>

record config =
  DB2_VERSION :: string
  LPAR :: string
  LPAR_SSID :: "string \<rightharpoonup> (string \<rightharpoonup> string)"
  DB2_SUBSYSTEM_ID :: string
  TSO_USER_ID :: string
  ACCEPT_FL_global :: string
  TARGET :: string
  PASSWORD :: string

text \<open>
  The world outside the wrapper answers three questions during \<^verbatim>\<open>execute\<close>: the rows
  that \<^verbatim>\<open>cursor.fetchall()\<close> yields for the call made over a connection URL with its six
  arguments, the text that \<^verbatim>\<open>read_ds\<close> returns for a data set name, and whether the final
  \<^verbatim>\<open>cursor.close()\<close> returns (\<open>None\<close>) or raises the driver's exception with a message.
  A row is the list of its columns. The closing of the cursor is the one call on a
  collaborator that runs after the has-executed flag is set, so its failure is part of
  the model; a failure of an earlier call on a collaborator (a refused connection, say)
  ends \<^verbatim>\<open>execute\<close> with the flag as it was and is not modelled. Logging has no effect
  on the instance and is left out.
\<close>

record world =
  fetchall :: "string \<Rightarrow> string list \<Rightarrow> string list list"
  read_ds :: "string \<Rightarrow> string"
  cursor_close :: "string option"

subsection \<open>The instance\<close>

text \<open>
  One field per class attribute, in the order of the class body. The attributes with two
  leading underscores are private to the class: \<open>sql_output_list\<close>, \<open>rpt_output_list\<close>,
  \<open>ddl_as_array\<close>, \<open>ddl_as_string\<close>, \<open>executed_at_least_once\<close> and \<open>saved_report\<close>.
\<close>

record adb2re =
  DB2REL_CONFIG :: string
  PORT :: string
  DB2SYS :: string
  DB2ALOC :: string
  DB2SERV :: string
  DB2AUTH :: string
  DB2REL :: string
  GENSG :: string
  GENDB :: string
  GENTS :: string
  GENTABLE :: string
  GENVIEW :: string
  GENINDEX :: string
  GENSYN :: string
  GENALIAS :: string
  GENUDT :: string
  GENUDF :: string
  GENSTP :: string
  GENSEQ :: string
  GENVAR :: string
  GENLABEL :: string
  GENCOMM :: string
  GENRELS :: string
  GENTRIG :: string
  GENTRUST :: string
  GENROLE :: string
  GENMASK :: string
  GENPERM :: string
  GENSEQAL :: string
  GRANTSG :: string
  GRANTDB :: string
  GRANTTS :: string
  GRANTTAB :: string
  GRANTVW :: string
  GRANTSCH :: string
  GRANTUDT :: string
  GRANTUDF :: string
  GRANTSTP :: string
  GRANTSEQ :: string
  GRANTVAR :: string
  ACCEPT_FL :: string
  ACTVCNTL :: string
  CATALOGSTATISTICS :: string
  TCATQUAL :: string
  TGTFL :: string
  SYSCOLDIST :: string
  SYSCOLDISTSTATS :: string
  SYSCOLSTATS :: string
  SYSCOLUMNS :: string
  SYSINDEX :: string
  SYSIXPART :: string
  SYSIXSTATS :: string
  SYSLOBSTATS :: string
  SYSTBPART :: string
  SYSTABLES :: string
  SYSTABLESPACE :: string
  SYSIXPSTATS :: string
  SYSTSPSTATS :: string
  SYSROUTINES :: string
  SYSKEYTGTDIST :: string
  SYSKEYTGTDISTSTATS :: string
  SYSKEYTARGETSTATS :: string
  NEWSQLID :: string
  NEWGRANTOR :: string
  NEWDB :: string
  NEWTSSG :: string
  NEWIXSG :: string
  PENDCHGS :: string
  SPCALLOC :: string
  TGTDB2 :: string
  DEFAULTS :: string
  COMMITFR :: string
  RUNSQLID :: string
  SQLCMTS :: string
  SQL_OUTFLAG :: string
  SQL_DSNAME :: string
  SQL_MEMBER :: string
  SQL_UNIT :: string
  SQL_VOLSER :: string
  sql_output_list :: string
  RPT_OUTFLAG :: string
  RPT_DSNAME :: string
  RPT_MEMBER :: string
  RPT_UNIT :: string
  RPT_VOLSER :: string
  rpt_output_list :: string
  DEBUG_MODE :: bool
  parameter_list :: string
  request_list :: string
  ddl_as_array :: "string list"
  ddl_as_string :: string
  executed_at_least_once :: bool
  saved_report :: string

text \<open>\<^verbatim>\<open>LPAR_SSID[LPAR][ssid]\<close>: two dictionary lookups, each raising \<^verbatim>\<open>KeyError\<close>.\<close>

definition lookup_port :: "config \<Rightarrow> string \<Rightarrow> error + string" where
  "lookup_port cfg ssid =
     (case LPAR_SSID cfg (LPAR cfg) of
        None \<Rightarrow> Inl (KeyError (LPAR cfg))
      | Some ports \<Rightarrow>
          (case ports ssid of None \<Rightarrow> Inl (KeyError ssid) | Some port \<Rightarrow> Inr port))"

text \<open>
  A fresh instance holds the values of the class body. The body looks the port up and
  pads a two-character release with \<^verbatim>\<open>'15'\<close>.
\<close>

definition Adb2re :: "config \<Rightarrow> error + adb2re" where
  "Adb2re cfg =
     (case lookup_port cfg (DB2_SUBSYSTEM_ID cfg) of
        Inl e \<Rightarrow> Inl e
      | Inr port \<Rightarrow>
          (let rel = (if length (DB2_VERSION cfg) = 2 then DB2_VERSION cfg @ ''15''
                      else DB2_VERSION cfg)
           in Inr \<lparr>
             DB2REL_CONFIG = rel, PORT = port, DB2SYS = DB2_SUBSYSTEM_ID cfg, DB2ALOC = '''',
             DB2SERV = LPAR cfg @ DB2_SUBSYSTEM_ID cfg, DB2AUTH = TSO_USER_ID cfg, DB2REL = rel,
             GENSG = ''N'', GENDB = ''N'', GENTS = ''N'', GENTABLE = ''N'', GENVIEW = ''N'',
             GENINDEX = ''N'', GENSYN = ''N'', GENALIAS = ''N'', GENUDT = ''N'', GENUDF = ''N'',
             GENSTP = ''N'', GENSEQ = ''N'', GENVAR = ''N'', GENLABEL = ''N'', GENCOMM = ''N'',
             GENRELS = ''N'', GENTRIG = ''N'', GENTRUST = ''N'', GENROLE = ''N'', GENMASK = ''N'',
             GENPERM = ''N'', GENSEQAL = ''N'', GRANTSG = ''N'', GRANTDB = ''N'', GRANTTS = ''N'',
             GRANTTAB = ''N'', GRANTVW = ''N'', GRANTSCH = ''N'', GRANTUDT = ''N'', GRANTUDF = ''N'',
             GRANTSTP = ''N'', GRANTSEQ = ''N'', GRANTVAR = ''N'', ACCEPT_FL = ACCEPT_FL_global cfg,
             ACTVCNTL = ''N'', CATALOGSTATISTICS = ''N'', TCATQUAL = '''',
             TGTFL = ACCEPT_FL_global cfg, SYSCOLDIST = ''Y'', SYSCOLDISTSTATS = ''Y'',
             SYSCOLSTATS = ''Y'', SYSCOLUMNS = ''Y'', SYSINDEX = ''Y'', SYSIXPART = ''Y'',
             SYSIXSTATS = ''Y'', SYSLOBSTATS = ''Y'', SYSTBPART = ''Y'', SYSTABLES = ''Y'',
             SYSTABLESPACE = ''Y'', SYSIXPSTATS = ''Y'', SYSTSPSTATS = ''Y'', SYSROUTINES = ''Y'',
             SYSKEYTGTDIST = ''Y'', SYSKEYTGTDISTSTATS = ''Y'', SYSKEYTARGETSTATS = ''Y'',
             NEWSQLID = '''', NEWGRANTOR = '''', NEWDB = '''', NEWTSSG = '''', NEWIXSG = '''',
             PENDCHGS = ''Y'', SPCALLOC = ''DEFINED'', TGTDB2 = rel, DEFAULTS = ''K'',
             COMMITFR = ''A'', RUNSQLID = '''', SQLCMTS = ''N'', SQL_OUTFLAG = ''RS'',
             SQL_DSNAME = '''', SQL_MEMBER = '''', SQL_UNIT = '''', SQL_VOLSER = '''',
             sql_output_list = '''', RPT_OUTFLAG = ''BO'',
             RPT_DSNAME = TSO_USER_ID cfg @ ''.REPORT.TEMP'', RPT_MEMBER = '''', RPT_UNIT = '''',
             RPT_VOLSER = '''', rpt_output_list = '''', DEBUG_MODE = False, parameter_list = '''',
             request_list = '''', ddl_as_array = [], ddl_as_string = '''',
             executed_at_least_once = False, saved_report = '''' \<rparr>))"

subsection \<open>Building the request list\<close>

definition add_stogroup :: "string \<Rightarrow> adb2re \<Rightarrow> adb2re" where
  "add_stogroup sgname self =
     self\<lparr>request_list := request_list self @ ''TYPE='SG',NAME='' @ quoted sgname @ '';''\<rparr>"

definition add_database :: "string \<Rightarrow> adb2re \<Rightarrow> adb2re" where
  "add_database dbname self =
     self\<lparr>request_list := request_list self @ ''TYPE='DB',NAME='' @ quoted dbname @ '';''\<rparr>"

definition add_object :: "string \<Rightarrow> string \<Rightarrow> string \<Rightarrow> adb2re \<Rightarrow> adb2re" where
  "add_object type qual name self =
     self\<lparr>request_list := request_list self @
       ''TYPE='' @ quoted type @ '',QUAL='' @ quoted qual @ '',NAME='' @ quoted name @ '';''\<rparr>"

definition add_tablespace :: "string \<Rightarrow> string \<Rightarrow> adb2re \<Rightarrow> adb2re" where
  "add_tablespace dbname tsname self = add_object ''TS'' dbname tsname self"

definition add_table :: "string \<Rightarrow> string \<Rightarrow> adb2re \<Rightarrow> adb2re" where
  "add_table qual name self = add_object ''TB'' qual name self"

definition add_view :: "string \<Rightarrow> string \<Rightarrow> adb2re \<Rightarrow> adb2re" where
  "add_view qual name self = add_object ''VW'' qual name self"

definition add_alias :: "string \<Rightarrow> string \<Rightarrow> adb2re \<Rightarrow> adb2re" where
  "add_alias qual name self = add_object ''AL'' qual name self"

definition add_index :: "string \<Rightarrow> string \<Rightarrow> adb2re \<Rightarrow> adb2re" where
  "add_index qual name self = add_object ''IX'' qual name self"

definition add_user_defined_type :: "string \<Rightarrow> string \<Rightarrow> adb2re \<Rightarrow> adb2re" where
  "add_user_defined_type qual name self = add_object ''DT'' qual name self"

definition add_user_defined_function :: "string \<Rightarrow> string \<Rightarrow> adb2re \<Rightarrow> adb2re" where
  "add_user_defined_function qual name self = add_object ''FU'' qual name self"

definition add_stored_procedure :: "string \<Rightarrow> string \<Rightarrow> adb2re \<Rightarrow> adb2re" where
  "add_stored_procedure qual name self = add_object ''SP'' qual name self"

definition add_sequence :: "string \<Rightarrow> string \<Rightarrow> adb2re \<Rightarrow> adb2re" where
  "add_sequence qual name self = add_object ''SQ'' qual name self"

definition add_sequence_alias :: "string \<Rightarrow> string \<Rightarrow> adb2re \<Rightarrow> adb2re" where
  "add_sequence_alias qual name self =
     self\<lparr>request_list := request_list self @
       ''SCH='' @ quoted qual @ '','' @ ''SEQ='' @ quoted name @ '';''\<rparr>"

definition add_schema :: "string \<Rightarrow> adb2re \<Rightarrow> adb2re" where
  "add_schema name self =
     self\<lparr>request_list := request_list self @ ''SCH='' @ quoted name @ '';''\<rparr>"

definition add_trigger :: "string \<Rightarrow> string \<Rightarrow> adb2re \<Rightarrow> adb2re" where
  "add_trigger qual name self = add_object ''TG'' qual name self"

definition add_synonym :: "string \<Rightarrow> string \<Rightarrow> adb2re \<Rightarrow> adb2re" where
  "add_synonym qual name self = add_object ''SY'' qual name self"

subsection \<open>Rendering the parameter list and the output lists\<close>

text \<open>
  \<^verbatim>\<open>__build_parameter_list\<close> starts from the two required fields and appends one
  fragment per option, in the order of the source; each element of the list below is one
  \<^verbatim>\<open>+=\<close> statement with its guard. The source compares with \<^verbatim>\<open>is not\<close>; object
  identity of strings is not a notion of this model, and the comparison is read as
  inequality of values, as the specification asks.
\<close>

definition build_parameter_list :: "config \<Rightarrow> adb2re \<Rightarrow> adb2re" where
  "build_parameter_list cfg self = self\<lparr>parameter_list := concat
       [''DB2SYS='' @ quoted (DB2SYS self) @ '',DB2REL='' @ quoted (DB2REL self),
        (if DB2ALOC self \<noteq> '''' then '',DB2ALOC='' @ quoted (DB2ALOC self) else []),
        (if DB2SERV self \<noteq> LPAR cfg @ DB2_SUBSYSTEM_ID cfg then '',DB2SERV='' @ quoted (DB2SERV self) else []),
        (if DB2AUTH self \<noteq> TSO_USER_ID cfg then '',DB2AUTH='' @ quoted (DB2AUTH self) else []),
        (if GENSG self \<noteq> ''N'' then '',GENSG='' @ quoted (GENSG self) else []),
        (if GENDB self \<noteq> ''N'' then '',GENDB='' @ quoted (GENDB self) else []),
        (if GENTS self \<noteq> ''N'' then '',GENTS='' @ quoted (GENTS self) else []),
        (if GENTABLE self \<noteq> ''N'' then '',GENTABLE='' @ quoted (GENTABLE self) else []),
        (if GENVIEW self \<noteq> ''N'' then '',GENVIEW='' @ quoted (GENVIEW self) else []),
        (if GENINDEX self \<noteq> ''N'' then '',GENINDEX='' @ quoted (GENINDEX self) else []),
        (if GENSYN self \<noteq> ''N'' then '',GENSYN='' @ quoted (GENSYN self) else []),
        (if GENALIAS self \<noteq> ''N'' then '',GENALIAS='' @ quoted (GENALIAS self) else []),
        (if GENUDT self \<noteq> ''N'' then '',GENUDT='' @ quoted (GENUDT self) else []),
        (if GENUDF self \<noteq> ''N'' then '',GENUDF='' @ quoted (GENUDF self) else []),
        (if GENSTP self \<noteq> ''N'' then '',GENSTP='' @ quoted (GENSTP self) else []),
        (if GENSEQ self \<noteq> ''N'' then '',GENSEQ='' @ quoted (GENSEQ self) else []),
        (if GENVAR self \<noteq> ''N'' then '',GENVAR='' @ quoted (GENVAR self) else []),
        (if GENLABEL self \<noteq> ''N'' then '',GENLABEL='' @ quoted (GENLABEL self) else []),
        (if GENCOMM self \<noteq> ''N'' then '',GENCOMM='' @ quoted (GENCOMM self) else []),
        (if GENRELS self \<noteq> ''N'' then '',GENRELS='' @ quoted (GENRELS self) else []),
        (if GENTRIG self \<noteq> ''N'' then '',GENTRIG='' @ quoted (GENTRIG self) else []),
        (if GENTRUST self \<noteq> ''N'' then '',GENTRUST='' @ quoted (GENTRUST self) else []),
        (if GENROLE self \<noteq> ''N'' then '',GENROLE='' @ quoted (GENROLE self) else []),
        (if GENMASK self \<noteq> ''N'' then '',GENMASK='' @ quoted (GENMASK self) else []),
        (if GENPERM self \<noteq> ''N'' then '',GENPERM='' @ quoted (GENPERM self) else []),
        (if GENSEQAL self \<noteq> ''N'' then '',GENSEQAL='' @ quoted (GENSEQAL self) else []),
        (if GRANTSG self \<noteq> ''N'' then '',GRANTSG='' @ quoted (GRANTSG self) else []),
        (if GRANTDB self \<noteq> ''N'' then '',GRANTDB='' @ quoted (GRANTDB self) else []),
        (if GRANTTS self \<noteq> ''N'' then '',GRANTTS='' @ quoted (GRANTTS self) else []),
        (if GRANTTAB self \<noteq> ''N'' then '',GRANTTAB='' @ quoted (GRANTTAB self) else []),
        (if GRANTVW self \<noteq> ''N'' then '',GRANTVW='' @ quoted (GRANTVW self) else []),
        (if GRANTSCH self \<noteq> ''N'' then '',GRANTSCH='' @ quoted (GRANTSCH self) else []),
        (if GRANTUDT self \<noteq> ''N'' then '',GRANTUDT='' @ quoted (GRANTUDT self) else []),
        (if GRANTUDF self \<noteq> ''N'' then '',GRANTUDF='' @ quoted (GRANTUDF self) else []),
        (if GRANTSTP self \<noteq> ''N'' then '',GRANTSTP='' @ quoted (GRANTSTP self) else []),
        (if GRANTSEQ self \<noteq> ''N'' then '',GRANTSEQ='' @ quoted (GRANTSEQ self) else []),
        (if GRANTVAR self \<noteq> ''N'' then '',GRANTVAR='' @ quoted (GRANTVAR self) else []),
        (if ACCEPT_FL self \<noteq> ACCEPT_FL_global cfg then '',ACCEPT_FL='' @ quoted (ACCEPT_FL self) else []),
        (if ACTVCNTL self \<noteq> ''N'' then '',ACTVCNTL='' @ quoted (ACTVCNTL self) else []),
        (if CATALOGSTATISTICS self \<noteq> ''N'' then '',CATALOGSTATISTICS='' @ quoted (CATALOGSTATISTICS self) else []),
        (if TCATQUAL self \<noteq> '''' then '',TCATQUAL='' @ quoted (TCATQUAL self) else []),
        (if TGTFL self \<noteq> ACCEPT_FL_global cfg then '',TGTFL='' @ quoted (TGTFL self) else []),
        (if SYSCOLDIST self \<noteq> ''Y'' then '',GENSTATS.SYSCOLDIST='' @ quoted (SYSCOLDIST self) else []),
        (if SYSCOLDISTSTATS self \<noteq> ''Y'' then '',GENSTATS.SYSCOLDISTSTATS='' @ quoted (SYSCOLDISTSTATS self) else []),
        (if SYSCOLSTATS self \<noteq> ''Y'' then '',GENSTATS.SYSCOLSTATS='' @ quoted (SYSCOLSTATS self) else []),
        (if SYSCOLUMNS self \<noteq> ''Y'' then '',GENSTATS.SYSCOLUMNS='' @ quoted (SYSCOLUMNS self) else []),
        (if SYSINDEX self \<noteq> ''Y'' then '',GENSTATS.SYSINDEXES='' @ quoted (SYSINDEX self) else []),
        (if SYSIXPART self \<noteq> ''Y'' then '',GENSTATS.SYSINDEXPART='' @ quoted (SYSIXPART self) else []),
        (if SYSIXSTATS self \<noteq> ''Y'' then '',GENSTATS.SYSINDEXSTATS='' @ quoted (SYSIXSTATS self) else []),
        (if SYSLOBSTATS self \<noteq> ''Y'' then '',GENSTATS.SYSLOBSTATS='' @ quoted (SYSLOBSTATS self) else []),
        (if SYSTBPART self \<noteq> ''Y'' then '',GENSTATS.SYSTABLEPART='' @ quoted (SYSTBPART self) else []),
        (if SYSTABLES self \<noteq> ''Y'' then '',GENSTATS.SYSTABLES='' @ quoted (SYSTABLES self) else []),
        (if SYSTABLESPACE self \<noteq> ''Y'' then '',GENSTATS.SYSTABLESPACE='' @ quoted (SYSTABLESPACE self) else []),
        (if SYSIXPSTATS self \<noteq> ''Y'' then '',GENSTATS.SYSINDEXSPACESTATS='' @ quoted (SYSIXPSTATS self) else []),
        (if SYSTSPSTATS self \<noteq> ''Y'' then '',GENSTATS.SYSTABLESPACESTATS='' @ quoted (SYSTSPSTATS self) else []),
        (if SYSKEYTGTDISTSTATS self \<noteq> ''Y'' then '',GENSTATS.SYSKEYTGTDISTSTATS='' @ quoted (SYSKEYTGTDISTSTATS self) else []),
        (if SYSKEYTARGETSTATS self \<noteq> ''Y'' then '',GENSTATS.SYSKEYTARGETSTATS='' @ quoted (SYSKEYTARGETSTATS self) else []),
        (if SYSKEYTGTDIST self \<noteq> ''Y'' then '',GENSTATS.SYSKEYTGTDIST='' @ quoted (SYSKEYTGTDIST self) else []),
        (if SYSROUTINES self \<noteq> ''Y'' then '',GENSTATS.SYSROUTINES='' @ quoted (SYSROUTINES self) else []),
        (if NEWGRANTOR self \<noteq> '''' then '',NEWGRANTOR='' @ quoted (NEWGRANTOR self) else []),
        (if NEWDB self \<noteq> '''' then '',NEWDB='' @ quoted (NEWDB self) else []),
        (if NEWTSSG self \<noteq> '''' then '',NEWTSSG='' @ quoted (NEWTSSG self) else []),
        (if NEWIXSG self \<noteq> '''' then '',NEWIXSG='' @ quoted (NEWIXSG self) else []),
        (if NEWSQLID self \<noteq> '''' then '',NEWSQLID='' @ quoted (NEWSQLID self) else []),
        (if PENDCHGS self \<noteq> ''Y'' then '',PENDCHGS='' @ quoted (PENDCHGS self) else []),
        (if SPCALLOC self \<noteq> ''DEFINED'' then '',SPCALLOC='' @ quoted (SPCALLOC self) else []),
        (if TGTDB2 self \<noteq> DB2REL_CONFIG self then '',TGTDB2='' @ quoted (TGTDB2 self) else []),
        (if DEFAULTS self \<noteq> ''K'' then '',DEFAULTS='' @ quoted (DEFAULTS self) else []),
        (if COMMITFR self \<noteq> ''A'' then '',COMMITFR='' @ quoted (COMMITFR self) else []),
        (if RUNSQLID self \<noteq> '''' then '',RUNSQLID='' @ quoted (RUNSQLID self) else []),
        (if SQLCMTS self \<noteq> '''' then '',SQLCMTS='' @ quoted (SQLCMTS self) else []),
        '';'']\<rparr>"

text \<open>\<^verbatim>\<open>__build_output_lists\<close>: the same pattern for the two output descriptors.\<close>

definition build_output_lists :: "adb2re \<Rightarrow> adb2re" where
  "build_output_lists self =
     (let self = self\<lparr>sql_output_list := concat
       [''SQL_OUTFLAG='' @ quoted (SQL_OUTFLAG self),
        (if SQL_DSNAME self \<noteq> '''' then '',SQL_DSNAME='' @ quoted (SQL_DSNAME self) else []),
        (if SQL_MEMBER self \<noteq> '''' then '',SQL_MEMBER='' @ quoted (SQL_MEMBER self) else []),
        (if SQL_UNIT self \<noteq> '''' then '',SQL_UNIT='' @ quoted (SQL_UNIT self) else []),
        (if SQL_VOLSER self \<noteq> '''' then '',SQL_VOLSER='' @ quoted (SQL_VOLSER self) else []),
        '';'']\<rparr>
      in self\<lparr>rpt_output_list := concat
       [''RPT_OUTFLAG='' @ quoted (RPT_OUTFLAG self),
        '',RPT_DSNAME='' @ quoted (RPT_DSNAME self),
        (if RPT_MEMBER self \<noteq> '''' then '',RPT_MEMBER='' @ quoted (RPT_MEMBER self) else []),
        (if RPT_UNIT self \<noteq> '''' then '',RPT_UNIT='' @ quoted (RPT_UNIT self) else []),
        (if RPT_VOLSER self \<noteq> '''' then '',RPT_VOLSER='' @ quoted (RPT_VOLSER self) else []),
        '';'']\<rparr>)"

subsection \<open>Bulk option setters\<close>

definition set_all_gen_options :: "string \<Rightarrow> adb2re \<Rightarrow> adb2re" where
  "set_all_gen_options v self =
     self\<lparr>GENSG := v, GENDB := v, GENTS := v, GENTABLE := v, GENVIEW := v, GENINDEX := v,
          GENSYN := v, GENALIAS := v, GENUDT := v, GENUDF := v, GENSTP := v, GENSEQ := v,
          GENVAR := v, GENLABEL := v, GENCOMM := v, GENRELS := v, GENTRIG := v, GENTRUST := v,
          GENROLE := v, GENMASK := v, GENPERM := v, GENSEQAL := v\<rparr>"

definition set_all_grant_options :: "string \<Rightarrow> adb2re \<Rightarrow> adb2re" where
  "set_all_grant_options v self =
     self\<lparr>GRANTSG := v, GRANTDB := v, GRANTTS := v, GRANTTAB := v, GRANTVW := v, GRANTSCH := v,
          GRANTUDT := v, GRANTUDF := v, GRANTSTP := v, GRANTSEQ := v, GRANTVAR := v\<rparr>"

subsection \<open>Report assertions\<close>

text \<open>The two messages of \<^verbatim>\<open>assert_text_in_report\<close> about a line.\<close>

definition missing_line_message :: "string \<Rightarrow> string \<Rightarrow> string" where
  "missing_line_message line report =
     ''adb2re.py Failed to find line '' @ quoted line @ '' in report. Full report:'' @
     newline @ newline @ report"

definition unexpected_line_message :: "string \<Rightarrow> string \<Rightarrow> string" where
  "unexpected_line_message line report =
     ''adb2re.py Unexpectedly found line '' @ quoted line @ '' in report. Full report:'' @
     newline @ newline @ report"

text \<open>
  The loop of \<^verbatim>\<open>assert_text_in_report\<close> over the lines; \<^verbatim>\<open>report.count(line)\<close> is
  used as a truth value, so it is compared with zero. The test \<^verbatim>\<open>RPT_DSNAME is ''\<close> of
  the method is read as equality with the empty string.
\<close>

fun check_report_lines :: "string \<Rightarrow> bool \<Rightarrow> string list \<Rightarrow> error + unit" where
  "check_report_lines report positive_test [] = Inr ()"
| "check_report_lines report positive_test (line # text) =
     (if positive_test \<and> \<not> count_str report line \<noteq> 0 then
        Inl (ReportAssertionError (missing_line_message line report))
      else if \<not> positive_test \<and> count_str report line \<noteq> 0 then
        Inl (ReportAssertionError (unexpected_line_message line report))
      else check_report_lines report positive_test text)"

definition assert_text_in_report :: "adb2re \<Rightarrow> string list \<Rightarrow> bool \<Rightarrow> error + unit" where
  "assert_text_in_report self text positive_test =
     (if RPT_DSNAME self = '''' then
        Inl (ConfigurationError ''adb2re.py: RPT_DSNAME must be set before calling execute()'')
      else check_report_lines (saved_report self) positive_test text)"

definition assert_text_not_in_report :: "adb2re \<Rightarrow> string list \<Rightarrow> error + unit" where
  "assert_text_not_in_report self text = assert_text_in_report self text False"

subsection \<open>Execution\<close>

text \<open>
  A method that can raise after it has assigned to the instance returns the exception, if
  any, together with the instance as the method left it.

  The first loop of the fetch appends the second column of each row; \<^verbatim>\<open>row[1]\<close> raises
  \<^verbatim>\<open>IndexError\<close> on a row with fewer than two columns. The second loop appends each
  stored line and a newline to the string. Then the flag is set, and last the cursor is
  closed.
\<close>

fun fetch_rows :: "string list list \<Rightarrow> adb2re \<Rightarrow> error option \<times> adb2re" where
  "fetch_rows [] self = (None, self)"
| "fetch_rows (row # rows) self =
     (if length row < 2 then (Some (IndexError ''tuple index out of range''), self)
      else fetch_rows rows (self\<lparr>ddl_as_array := ddl_as_array self @ [row ! 1]\<rparr>))"

fun join_rows :: "string list \<Rightarrow> adb2re \<Rightarrow> adb2re" where
  "join_rows [] self = self"
| "join_rows (row # rows) self =
     join_rows rows (self\<lparr>ddl_as_string := ddl_as_string self @ row @ newline\<rparr>)"

definition fetch_ddl :: "world \<Rightarrow> string list list \<Rightarrow> adb2re \<Rightarrow> error option \<times> adb2re" where
  "fetch_ddl w rows self =
     (let self = self\<lparr>ddl_as_array := []\<rparr>;
          self = self\<lparr>ddl_as_string := ''''\<rparr>
      in case fetch_rows rows self of
           (Some e, self) \<Rightarrow> (Some e, self)
         | (None, self) \<Rightarrow>
             (let self = join_rows (ddl_as_array self) self;
                  self = self\<lparr>executed_at_least_once := True\<rparr>
              in (case cursor_close w of
                    Some msg \<Rightarrow> (Some (DatabaseError msg), self)
                  | None \<Rightarrow> (None, self))))"

text \<open>
  The assignments of \<^verbatim>\<open>execute\<close> before the call: the subsystem fields are updated
  from the argument and the three lists are built.
\<close>

definition prepare_call :: "config \<Rightarrow> string \<Rightarrow> string \<Rightarrow> adb2re \<Rightarrow> adb2re" where
  "prepare_call cfg ssid port self =
     (let self = self\<lparr>PORT := port\<rparr>;
          self = self\<lparr>DB2SYS := ssid\<rparr>;
          self = self\<lparr>DB2ALOC := ''''\<rparr>;
          self = self\<lparr>DB2SERV := LPAR cfg @ ssid\<rparr>;
          self = build_parameter_list cfg self
      in build_output_lists self)"

text \<open>The URL of the connection and the six arguments of the procedure call.\<close>

definition connection_url :: "config \<Rightarrow> adb2re \<Rightarrow> string" where
  "connection_url cfg self =
     ''jdbc:db2://'' @ LPAR cfg @ ''.rocketsoftware.com:'' @ PORT self @ ''/'' @ DB2SERV self"

definition call_arguments :: "adb2re \<Rightarrow> string list" where
  "call_arguments self =
     [parameter_list self, request_list self, sql_output_list self, rpt_output_list self,
      (if DEBUG_MODE self then ''DEBUG'' else ''''), '''']"

text \<open>
  \<^verbatim>\<open>execute(ssid)\<close>; the default argument of the source is \<^verbatim>\<open>DB2_SUBSYSTEM_ID\<close>.
\<close>

definition execute :: "config \<Rightarrow> world \<Rightarrow> string \<Rightarrow> adb2re \<Rightarrow> error option \<times> adb2re" where
  "execute cfg w ssid self =
     (if length (request_list self) < 1 then
        (Some (ConfigurationError
           ''adb2re.py: request_list cannot be empty; use functions like add_table to build the list''),
         self)
      else
        case lookup_port cfg ssid of
          Inl e \<Rightarrow> (Some e, self)
        | Inr port \<Rightarrow>
            (let self = prepare_call cfg ssid port self;
                 rows = fetchall w (connection_url cfg self) (call_arguments self)
             in if RPT_DSNAME self \<noteq> '''' then
                  (let self = self\<lparr>saved_report := read_ds w (RPT_DSNAME self)\<rparr>
                   in case assert_text_in_report self
                             [''ADB2GEN - Create DDL from catalog info''] True of
                        Inl e \<Rightarrow> (Some e, self)
                      | Inr u \<Rightarrow>
                          (case assert_text_not_in_report self
                                  [''SQLCODE=-805'', ''SQLCODE = -805''] of
                             Inl e \<Rightarrow> (Some e, self)
                           | Inr u \<Rightarrow> fetch_ddl w rows self))
                else fetch_ddl w rows self))"

subsection \<open>Result accessors\<close>

definition get_ddl_as_array :: "adb2re \<Rightarrow> error + string list" where
  "get_ddl_as_array self =
     (if \<not> executed_at_least_once self then
        Inl (NotExecutedError ''adb2re.py: Call execute() before retrieving DDL'')
      else Inr (ddl_as_array self))"

definition get_ddl_as_string :: "adb2re \<Rightarrow> error + string" where
  "get_ddl_as_string self =
     (if \<not> executed_at_least_once self then
        Inl (NotExecutedError ''adb2re.py: Call execute() before retrieving DDL'')
      else Inr (ddl_as_string self))"

definition get_report_as_string :: "adb2re \<Rightarrow> error + string" where
  "get_report_as_string self =
     (if \<not> executed_at_least_once self then
        Inl (NotExecutedError ''adb2re.py: Call execute() before retrieving report'')
      else Inr (saved_report self))"

subsection \<open>The checklist assertion\<close>

text \<open>The two messages of \<^verbatim>\<open>assert_text_between_terminators\<close> about a checklist row.\<close>

definition mismatch_message ::
  "string list \<Rightarrow> nat \<Rightarrow> string \<Rightarrow> string \<Rightarrow> string \<Rightarrow> string \<Rightarrow> string" where
  "mismatch_message sub_checklist count item stmt term ddl =
     ''adb2re.py: Failed on sub-checklist:'' @ newline @ join_str newline sub_checklist @
     newline @ ''Could not '' @ ''find item#: '' @ str_nat count @ '', string value '' @
     quoted item @ '' in this statement:'' @ newline @ stmt @ term @ newline @
     ''Full DDL:'' @ newline @ ddl"

definition not_found_message :: "string list \<Rightarrow> string" where
  "not_found_message sub_checklist =
     ''adb2re.py: Could not find any items in DDL from sub-checklist:'' @ newline @
     join_str newline sub_checklist"

text \<open>
  The innermost loop, over the items of one row against one statement. It ends by
  exhausting the items, by \<^verbatim>\<open>break\<close> (both return the flag) or by raising.
\<close>

fun check_items ::
  "string list \<Rightarrow> string \<Rightarrow> string \<Rightarrow> string \<Rightarrow> string list \<Rightarrow> bool \<Rightarrow> nat \<Rightarrow> error + bool" where
  "check_items sub_checklist term ddl stmt [] found_first_one count = Inr found_first_one"
| "check_items sub_checklist term ddl stmt (item # items) found_first_one count =
     (if count_str stmt item \<noteq> 0 then
        check_items sub_checklist term ddl stmt items True (count + 1)
      else if found_first_one then
        Inl (ChecklistMismatchError (mismatch_message sub_checklist count item stmt term ddl))
      else Inr found_first_one)"

text \<open>
  The loop over the statements. Each iteration appends the terminator to the piece,
  resets the flag and the counter and runs the item loop; it breaks when the flag is set.
  The flag is a local variable of the method that outlives the loop, unbound
  (\<open>None\<close>) until the first iteration assigns it.
\<close>

fun scan_statements ::
  "string list \<Rightarrow> string \<Rightarrow> string \<Rightarrow> string list \<Rightarrow> bool option \<Rightarrow> error + bool option" where
  "scan_statements sub_checklist term ddl [] found_first_one = Inr found_first_one"
| "scan_statements sub_checklist term ddl (stmt # split_ddl) found_first_one =
     (case check_items sub_checklist term ddl (stmt @ term) sub_checklist False 1 of
        Inl e \<Rightarrow> Inl e
      | Inr found \<Rightarrow>
          if found then Inr (Some True)
          else scan_statements sub_checklist term ddl split_ddl (Some False))"

text \<open>The outer loop, over the rows of the checklist.\<close>

fun check_checklist ::
  "string \<Rightarrow> string \<Rightarrow> string list \<Rightarrow> string list list \<Rightarrow> bool option \<Rightarrow> error + unit" where
  "check_checklist term ddl split_ddl [] found_first_one = Inr ()"
| "check_checklist term ddl split_ddl (sub_checklist # checklist) found_first_one =
     (case scan_statements sub_checklist term ddl split_ddl found_first_one of
        Inl e \<Rightarrow> Inl e
      | Inr None \<Rightarrow> Inl (UnboundLocalError ''found_first_one'')
      | Inr (Some found) \<Rightarrow>
          if \<not> found then Inl (ChecklistMismatchError (not_found_message sub_checklist))
          else check_checklist term ddl split_ddl checklist (Some found))"

text \<open>
  \<^verbatim>\<open>assert_text_between_terminators(checklist, term)\<close>; the default terminator of the
  source is \<^verbatim>\<open>';'\<close>.
\<close>

definition assert_text_between_terminators ::
  "adb2re \<Rightarrow> string list list \<Rightarrow> string \<Rightarrow> error + unit" where
  "assert_text_between_terminators self checklist term =
     (if \<not> executed_at_least_once self then
        Inl (NotExecutedError ''adb2re.py: Call execute() before retrieving DDL'')
      else
        case get_ddl_as_string self of
          Inl e \<Rightarrow> Inl e
        | Inr ddl \<Rightarrow>
            (if find_str ddl term < 0 then
               Inl (FormatError (''adb2re.py: Could not find terminator '' @ quoted term @
                      '' in DDL:'' @ newline @ ddl))
             else
               (case split_str ddl term of
                  Inl e \<Rightarrow> Inl e
                | Inr split_ddl \<Rightarrow> check_checklist term ddl split_ddl checklist None)))"

subsection \<open>The life of an instance\<close>

text \<open>
  The calls that change an instance without running the procedure, and their effect.
\<close>

datatype call =
    Add_stogroup string
  | Add_database string
  | Add_tablespace string string
  | Add_table string string
  | Add_view string string
  | Add_alias string string
  | Add_index string string
  | Add_user_defined_type string string
  | Add_user_defined_function string string
  | Add_stored_procedure string string
  | Add_sequence string string
  | Add_sequence_alias string string
  | Add_schema string
  | Add_trigger string string
  | Add_synonym string string
  | Set_all_gen_options string
  | Set_all_grant_options string

fun invoke :: "call \<Rightarrow> adb2re \<Rightarrow> adb2re" where
  "invoke (Add_stogroup n) self = add_stogroup n self"
| "invoke (Add_database n) self = add_database n self"
| "invoke (Add_tablespace q n) self = add_tablespace q n self"
| "invoke (Add_table q n) self = add_table q n self"
| "invoke (Add_view q n) self = add_view q n self"
| "invoke (Add_alias q n) self = add_alias q n self"
| "invoke (Add_index q n) self = add_index q n self"
| "invoke (Add_user_defined_type q n) self = add_user_defined_type q n self"
| "invoke (Add_user_defined_function q n) self = add_user_defined_function q n self"
| "invoke (Add_stored_procedure q n) self = add_stored_procedure q n self"
| "invoke (Add_sequence q n) self = add_sequence q n self"
| "invoke (Add_sequence_alias q n) self = add_sequence_alias q n self"
| "invoke (Add_schema n) self = add_schema n self"
| "invoke (Add_trigger q n) self = add_trigger q n self"
| "invoke (Add_synonym q n) self = add_synonym q n self"
| "invoke (Set_all_gen_options v) self = set_all_gen_options v self"
| "invoke (Set_all_grant_options v) self = set_all_grant_options v self"

text \<open>
  A caller may also assign to the public attributes directly (that is how single options
  are set); such an assignment leaves the private attributes as they are.
\<close>

definition private_unchanged :: "adb2re \<Rightarrow> adb2re \<Rightarrow> bool" where
  "private_unchanged self self' \<longleftrightarrow>
     sql_output_list self' = sql_output_list self \<and>
     rpt_output_list self' = rpt_output_list self \<and>
     ddl_as_array self' = ddl_as_array self \<and>
     ddl_as_string self' = ddl_as_string self \<and>
     executed_at_least_once self' = executed_at_least_once self \<and>
     saved_report self' = saved_report self"

text \<open>
  \<open>lifecycle cfg b self\<close>: the instance \<open>self\<close> is reached from a fresh instance by calls
  and assignments, and \<open>b\<close> tells whether some call of \<^verbatim>\<open>execute\<close> on the way has
  completed its fetch of the DDL: it returned normally, or it raised only in the closing
  of the cursor. The accessors and the assertions assign nothing, so they need no rule.
\<close>

inductive lifecycle :: "config \<Rightarrow> bool \<Rightarrow> adb2re \<Rightarrow> bool" where
  created: "Adb2re cfg = Inr self \<Longrightarrow> lifecycle cfg False self"
| called: "lifecycle cfg b self \<Longrightarrow> lifecycle cfg b (invoke c self)"
| assigned: "lifecycle cfg b self \<Longrightarrow> private_unchanged self self' \<Longrightarrow> lifecycle cfg b self'"
| execute_stopped:
    "lifecycle cfg b self \<Longrightarrow> execute cfg w ssid self = (Some e, self') \<Longrightarrow>
     (\<forall>msg. e \<noteq> DatabaseError msg) \<Longrightarrow> lifecycle cfg b self'"
| execute_fetched:
    "lifecycle cfg b self \<Longrightarrow> execute cfg w ssid self = (r, self') \<Longrightarrow>
     r = None \<or> (\<exists>msg. r = Some (DatabaseError msg)) \<Longrightarrow> lifecycle cfg True self'"

subsection \<open>Notions used to state the properties\<close>








text \<open>The entry that \<^verbatim>\<open>add_table\<close> appends, without its final semicolon.\<close>

definition table_entry :: "string \<times> string \<Rightarrow> string" where
  "table_entry qn = ''TYPE='TB',QUAL='' @ quoted (fst qn) @ '',NAME='' @ quoted (snd qn)"

text \<open>Calling \<^verbatim>\<open>add_table\<close> once for each qualifier/name pair of a list, in order.\<close>

fun add_tables :: "(string \<times> string) list \<Rightarrow> adb2re \<Rightarrow> adb2re" where
  "add_tables [] self = self"
| "add_tables (qn # rest) self = add_tables rest (add_table (fst qn) (snd qn) self)"

text \<open>A configuration, a world and instances to evaluate the definitions on.\<close>

definition example_config :: config where
  "example_config =
     \<lparr>DB2_VERSION = ''12'', LPAR = ''RS22'',
      LPAR_SSID = [''RS22'' \<mapsto> [''DC1A'' \<mapsto> ''5031'']],
      DB2_SUBSYSTEM_ID = ''DC1A'', TSO_USER_ID = ''TS5813'', ACCEPT_FL_global = ''V12R1M500'',
      TARGET = ''rs22.rocketsoftware.com'', PASSWORD = ''secret''\<rparr>"

definition example_world :: world where
  "example_world =
     \<lparr>fetchall = (\<lambda>url args. [[''1'', ''CREATE TABLE A COL1;''], [''2'', ''CREATE TABLE B COL2;'']]),
      read_ds = (\<lambda>name. ''ADB2GEN - Create DDL from catalog info'' @ newline),
      cursor_close = None\<rparr>"

definition failing_world :: world where
  "failing_world =
     \<lparr>fetchall = (\<lambda>url args. [[''1'', ''CREATE TABLE C COL3;'']]),
      read_ds = (\<lambda>name. ''ADB2GEN - Create DDL from catalog info'' @ newline @
                         ''DSNT408I SQLCODE = -805, ERROR'' @ newline),
      cursor_close = None\<rparr>"

text \<open>A world in which the closing of the cursor raises.\<close>

definition closing_world :: world where
  "closing_world = example_world\<lparr>cursor_close := Some ''connection reset''\<rparr>"


definition example_instance :: adb2re where
  "example_instance = (case Adb2re example_config of Inr self \<Rightarrow> self)"

definition example_request :: adb2re where
  "example_request = add_table ''MYSCHEMA'' ''A'' example_instance"

definition executed_once :: adb2re where
  "executed_once = snd (execute example_config example_world ''DC1A'' example_request)"

definition closed_with_error :: adb2re where
  "closed_with_error = snd (execute example_config closing_world ''DC1A'' example_request)"


definition reported_example :: adb2re where
  "reported_example = example_instance\<lparr>saved_report := ''Job OK'' @ newline\<rparr>"


definition unterminated_example :: adb2re where
  "unterminated_example =
     example_instance\<lparr>ddl_as_string := ''CREATE TABLE A COL1'', executed_at_least_once := True\<rparr>"

section \<open>Properties\<close>

subsection \<open>The string primitives and the library's notion of a substring\<close>

lemma find_str_negative_iff: "find_str s sub < 0 \<longleftrightarrow> \<not> sublist sub s"
  by (induction s) (auto simp: Let_def sublist_Cons_right)

lemma count_from_positive_iff: "sub \<noteq> [] \<Longrightarrow> 0 < count_from s sub \<longleftrightarrow> sublist sub s"
  by (induction s sub rule: count_from.induct) (auto simp: sublist_Cons_right)

lemma count_str_positive_iff: "0 < count_str s sub \<longleftrightarrow> sublist sub s"
  by (simp add: count_str_def count_from_positive_iff)

lemma count_str_zero_iff: "count_str s sub = 0 \<longleftrightarrow> \<not> sublist sub s"
  using count_str_positive_iff [of s sub] by auto


lemma split_from_char_absent: "c \<notin> set s \<Longrightarrow> split_from [c] cur s = [cur @ s]"
  by (induction s arbitrary: cur) auto

lemma split_from_char_piece:
  "c \<notin> set e \<Longrightarrow> split_from [c] cur (e @ c # rest) = (cur @ e) # split_from [c] [] rest"
  by (induction e arbitrary: cur) auto

lemma split_from_terminated:
  "\<forall>e \<in> set es. c \<notin> set e \<Longrightarrow>
   split_from [c] [] (concat (map (\<lambda>e. e @ [c]) es)) = es @ [[]]"
  by (induction es) (auto simp: split_from_char_piece)


subsection \<open>The loops of the checklist assertion\<close>























subsection \<open>Claims about the checklist assertion\<close>







text \<open>
  C4. On an instance that has executed, if the terminator does not occur in the DDL string
  then the assertion fails with a \<open>FormatError\<close>, whatever the checklist is.
\<close>

theorem missing_terminator_is_format_error:
  assumes "executed_at_least_once self"
    and "\<not> sublist term (ddl_as_string self)"
  shows "assert_text_between_terminators self checklist term =
         Inl (FormatError (''adb2re.py: Could not find terminator '' @ quoted term @
                '' in DDL:'' @ newline @ ddl_as_string self))"
  using assms
  by (simp add: assert_text_between_terminators_def get_ddl_as_string_def find_str_negative_iff)


theorem missing_terminator_is_format_error_witness:
  "executed_at_least_once unterminated_example \<and>
   \<not> sublist '';'' (ddl_as_string unterminated_example) \<and>
   assert_text_between_terminators unterminated_example [[''CREATE TABLE A'', ''COL1'']] '';'' =
     Inl (FormatError (''adb2re.py: Could not find terminator '' @ quoted '';'' @
            '' in DDL:'' @ newline @ ''CREATE TABLE A COL1''))"
proof -
  have h1: "executed_at_least_once unterminated_example"
    by (simp add: unterminated_example_def)
  have h2: "\<not> sublist '';'' (ddl_as_string unterminated_example)"
    by (simp add: unterminated_example_def sublist_Cons_right)
  from missing_terminator_is_format_error [OF h1 h2, of "[[''CREATE TABLE A'', ''COL1'']]"]
  have "assert_text_between_terminators unterminated_example [[''CREATE TABLE A'', ''COL1'']] '';'' =
     Inl (FormatError (''adb2re.py: Could not find terminator '' @ quoted '';'' @
            '' in DDL:'' @ newline @ ''CREATE TABLE A COL1''))"
    by (simp add: unterminated_example_def)
  with h1 h2 show ?thesis by blast
qed

subsection \<open>Report assertions\<close>

lemma check_report_lines_find:
  "check_report_lines report expect_present lines =
     (case find (\<lambda>line. sublist line report \<noteq> expect_present) lines of
        None \<Rightarrow> Inr ()
      | Some line \<Rightarrow>
          Inl (ReportAssertionError
                (if expect_present then missing_line_message line report
                 else unexpected_line_message line report)))"
  by (induction lines) (auto simp: count_str_zero_iff count_str_positive_iff)

text \<open>
  C8. With no report destination configured, \<^verbatim>\<open>assert_text_in_report\<close> fails with a
  \<open>ConfigurationError\<close>. Otherwise it looks for the first line whose presence in the
  stored report differs from \<open>expect_present\<close>: with no such line it returns normally
  (every line occurs when presence is expected, none occurs when it is forbidden); with
  one it fails with a \<open>ReportAssertionError\<close> whose message, written out below, names
  that line between quotes and is followed by the whole report.
  \<^verbatim>\<open>assert_text_not_in_report\<close> is the same call with \<open>expect_present\<close> false.
\<close>

theorem assert_text_in_report_outcome:
  "assert_text_in_report self lines expect_present =
     (if RPT_DSNAME self = '''' then
        Inl (ConfigurationError ''adb2re.py: RPT_DSNAME must be set before calling execute()'')
      else
        (case find (\<lambda>line. sublist line (saved_report self) \<noteq> expect_present) lines of
           None \<Rightarrow> Inr ()
         | Some line \<Rightarrow>
             Inl (ReportAssertionError
                   (if expect_present then
                      ''adb2re.py Failed to find line '' @ quoted line @
                      '' in report. Full report:'' @ newline @ newline @ saved_report self
                    else
                      ''adb2re.py Unexpectedly found line '' @ quoted line @
                      '' in report. Full report:'' @ newline @ newline @ saved_report self)))) \<and>
   assert_text_not_in_report self lines = assert_text_in_report self lines False"
  by (simp add: assert_text_in_report_def assert_text_not_in_report_def check_report_lines_find
      missing_line_message_def unexpected_line_message_def split: option.split)

subsection \<open>Execution\<close>

text \<open>
  C6. With an empty request list, \<^verbatim>\<open>execute\<close> fails with a \<open>ConfigurationError\<close>,
  whatever the world would answer, and returns the instance as it received it.
\<close>

theorem execute_empty_request_list:
  "request_list self = [] \<Longrightarrow>
   execute cfg w ssid self =
     (Some (ConfigurationError
        ''adb2re.py: request_list cannot be empty; use functions like add_table to build the list''),
      self)"
  by (simp add: execute_def)

text \<open>The example instance, and what the steps of \<^verbatim>\<open>execute\<close> leave unchanged.\<close>

lemma example_instance_eq: "Adb2re example_config = Inr example_instance"
  by (simp add: example_instance_def Adb2re_def lookup_port_def example_config_def Let_def)

lemma example_instance_fields:
  "request_list example_instance = []"
  "RPT_DSNAME example_instance = ''TS5813.REPORT.TEMP''"
  "executed_at_least_once example_instance = False"
  "ddl_as_array example_instance = []"
  "ddl_as_string example_instance = []"
  "saved_report example_instance = []"
  by (simp_all add: example_instance_def Adb2re_def lookup_port_def example_config_def Let_def)

lemma build_parameter_list_frame:
  "request_list (build_parameter_list cfg self) = request_list self"
  "RPT_DSNAME (build_parameter_list cfg self) = RPT_DSNAME self"
  "ddl_as_array (build_parameter_list cfg self) = ddl_as_array self"
  "ddl_as_string (build_parameter_list cfg self) = ddl_as_string self"
  "executed_at_least_once (build_parameter_list cfg self) = executed_at_least_once self"
  "saved_report (build_parameter_list cfg self) = saved_report self"
  unfolding build_parameter_list_def by (simp_all del: concat.simps)

lemma build_output_lists_frame:
  "request_list (build_output_lists self) = request_list self"
  "RPT_DSNAME (build_output_lists self) = RPT_DSNAME self"
  "ddl_as_array (build_output_lists self) = ddl_as_array self"
  "ddl_as_string (build_output_lists self) = ddl_as_string self"
  "executed_at_least_once (build_output_lists self) = executed_at_least_once self"
  "saved_report (build_output_lists self) = saved_report self"
  unfolding build_output_lists_def Let_def by (simp_all del: concat.simps)

lemma prepare_call_frame:
  "request_list (prepare_call cfg ssid port self) = request_list self"
  "RPT_DSNAME (prepare_call cfg ssid port self) = RPT_DSNAME self"
  "ddl_as_array (prepare_call cfg ssid port self) = ddl_as_array self"
  "ddl_as_string (prepare_call cfg ssid port self) = ddl_as_string self"
  "executed_at_least_once (prepare_call cfg ssid port self) = executed_at_least_once self"
  "saved_report (prepare_call cfg ssid port self) = saved_report self"
  unfolding prepare_call_def Let_def
  by (simp_all add: build_parameter_list_frame build_output_lists_frame)

text \<open>The two loops of the fetch, and \<^verbatim>\<open>execute\<close> as a case distinction.\<close>

lemma fetch_rows_result:
  "fetch_rows rows self =
     (if list_all (\<lambda>row. 2 \<le> length row) rows then
        (None, self\<lparr>ddl_as_array := ddl_as_array self @ map (\<lambda>row. row ! 1) rows\<rparr>)
      else
        (Some (IndexError ''tuple index out of range''),
         self\<lparr>ddl_as_array := ddl_as_array self @
                  map (\<lambda>row. row ! 1) (takeWhile (\<lambda>row. 2 \<le> length row) rows)\<rparr>))"
  by (induction rows arbitrary: self) (simp_all add: not_le)

lemma join_rows_result:
  "join_rows lines self =
     self\<lparr>ddl_as_string := ddl_as_string self @ concat (map (\<lambda>line. line @ newline) lines)\<rparr>"
  by (induction lines arbitrary: self) simp_all

lemma fetch_ddl_result:
  "fetch_ddl w rows self =
     (if list_all (\<lambda>row. 2 \<le> length row) rows then
        (map_option DatabaseError (cursor_close w), self\<lparr>ddl_as_array := map (\<lambda>row. row ! 1) rows,
                    ddl_as_string := concat (map (\<lambda>line. line @ newline) (map (\<lambda>row. row ! 1) rows)),
                    executed_at_least_once := True\<rparr>)
      else
        (Some (IndexError ''tuple index out of range''),
         self\<lparr>ddl_as_array := map (\<lambda>row. row ! 1) (takeWhile (\<lambda>row. 2 \<le> length row) rows),
              ddl_as_string := []\<rparr>))"
  by (simp add: fetch_ddl_def fetch_rows_result join_rows_result Let_def split: option.split)

lemma execute_outcome:
  assumes "request_list self \<noteq> []" and "lookup_port cfg ssid = Inr port"
    and "prepared = prepare_call cfg ssid port self"
    and "rows = fetchall w (connection_url cfg prepared) (call_arguments prepared)"
    and "report = read_ds w (RPT_DSNAME self)"
    and "reported = prepared\<lparr>saved_report := report\<rparr>"
  shows "execute cfg w ssid self =
     (if RPT_DSNAME self = [] then fetch_ddl w rows prepared
      else if \<not> sublist ''ADB2GEN - Create DDL from catalog info'' report then
        (Some (ReportAssertionError
           (missing_line_message ''ADB2GEN - Create DDL from catalog info'' report)), reported)
      else if sublist ''SQLCODE=-805'' report then
        (Some (ReportAssertionError (unexpected_line_message ''SQLCODE=-805'' report)), reported)
      else if sublist ''SQLCODE = -805'' report then
        (Some (ReportAssertionError (unexpected_line_message ''SQLCODE = -805'' report)), reported)
      else fetch_ddl w rows reported)"
  using assms(1,2)
  unfolding execute_def assms(3-6) Let_def
  by (simp add: prepare_call_frame assert_text_in_report_def assert_text_not_in_report_def
      check_report_lines_find)

lemma lookup_port_error: "lookup_port cfg ssid = Inl e \<Longrightarrow> \<exists>key. e = KeyError key"
  by (auto simp: lookup_port_def split: option.splits)

lemma execute_flag:
  assumes "execute cfg w ssid self = (r, self')"
  shows "executed_at_least_once self' =
           (if r = None \<or> (\<exists>msg. r = Some (DatabaseError msg)) then True
            else executed_at_least_once self)"
proof (cases "request_list self = []")
  case True
  with assms show ?thesis by (auto simp: execute_def)
next
  case False
  show ?thesis
  proof (cases "lookup_port cfg ssid")
    case (Inl e)
    with False assms show ?thesis by (auto simp: execute_def dest: lookup_port_error)
  next
    case (Inr port)
    from assms show ?thesis
      unfolding execute_outcome [OF False Inr refl refl refl refl]
      by (auto simp: fetch_ddl_result prepare_call_frame split: if_splits option.splits)
  qed
qed

text \<open>
  C10. If \<^verbatim>\<open>execute\<close> raises a \<open>ReportAssertionError\<close> (only its automatic report
  validation does), the stored DDL array, the stored DDL string and the has-executed flag
  are as they were before the call, so both DDL accessors answer as before. The
  validation raises whenever the request list is not empty, the port is found, a report
  destination is configured and the report lacks the banner or contains
  \<^verbatim>\<open>SQLCODE=-805\<close> in either form.
\<close>

theorem report_validation_failure_keeps_ddl:
  "(execute cfg w ssid self = (Some (ReportAssertionError msg), self') \<longrightarrow>
      ddl_as_array self' = ddl_as_array self \<and>
      ddl_as_string self' = ddl_as_string self \<and>
      executed_at_least_once self' = executed_at_least_once self \<and>
      get_ddl_as_array self' = get_ddl_as_array self \<and>
      get_ddl_as_string self' = get_ddl_as_string self) \<and>
   (request_list self \<noteq> [] \<and> lookup_port cfg ssid = Inr port \<and> RPT_DSNAME self \<noteq> [] \<and>
    (\<not> sublist ''ADB2GEN - Create DDL from catalog info'' (read_ds w (RPT_DSNAME self)) \<or>
     sublist ''SQLCODE=-805'' (read_ds w (RPT_DSNAME self)) \<or>
     sublist ''SQLCODE = -805'' (read_ds w (RPT_DSNAME self))) \<longrightarrow>
      (\<exists>m. fst (execute cfg w ssid self) = Some (ReportAssertionError m)))"
proof (intro conjI impI)
  assume raised: "execute cfg w ssid self = (Some (ReportAssertionError msg), self')"
  have kept: "ddl_as_array self' = ddl_as_array self \<and>
      ddl_as_string self' = ddl_as_string self \<and>
      executed_at_least_once self' = executed_at_least_once self"
  proof (cases "request_list self = []")
    case True
    with raised show ?thesis by (auto simp: execute_def)
  next
    case False
    show ?thesis
    proof (cases "lookup_port cfg ssid")
      case (Inl e)
      with False raised show ?thesis by (auto simp: execute_def)
    next
      case (Inr port)
      from raised show ?thesis
        unfolding execute_outcome [OF False Inr refl refl refl refl]
        by (auto simp: fetch_ddl_result prepare_call_frame split: if_splits option.splits)
    qed
  qed
  then show "ddl_as_array self' = ddl_as_array self"
    and "ddl_as_string self' = ddl_as_string self"
    and "executed_at_least_once self' = executed_at_least_once self"
    and "get_ddl_as_array self' = get_ddl_as_array self"
    and "get_ddl_as_string self' = get_ddl_as_string self"
    by (simp_all add: get_ddl_as_array_def get_ddl_as_string_def)
next
  assume "request_list self \<noteq> [] \<and> lookup_port cfg ssid = Inr port \<and> RPT_DSNAME self \<noteq> [] \<and>
    (\<not> sublist ''ADB2GEN - Create DDL from catalog info'' (read_ds w (RPT_DSNAME self)) \<or>
     sublist ''SQLCODE=-805'' (read_ds w (RPT_DSNAME self)) \<or>
     sublist ''SQLCODE = -805'' (read_ds w (RPT_DSNAME self)))"
  then have a: "request_list self \<noteq> []" and b: "lookup_port cfg ssid = Inr port"
    and c: "RPT_DSNAME self \<noteq> []"
    and d: "\<not> sublist ''ADB2GEN - Create DDL from catalog info'' (read_ds w (RPT_DSNAME self)) \<or>
     sublist ''SQLCODE=-805'' (read_ds w (RPT_DSNAME self)) \<or>
     sublist ''SQLCODE = -805'' (read_ds w (RPT_DSNAME self))"
    by blast+
  from c d show "\<exists>m. fst (execute cfg w ssid self) = Some (ReportAssertionError m)"
    unfolding execute_outcome [OF a b refl refl refl refl]
    by auto
qed

text \<open>
  C7, as amended. After an execution that returned normally, \<open>ddl_as_array\<close> is the list
  of the second columns of the fetched rows in arrival order, and \<open>ddl_as_string\<close> is
  the concatenation of each line followed by a newline: the lines are terminated by
  newlines, not separated by them. When no line contains a newline, splitting the string
  on newline yields the array followed by one empty string. The claim as stated (the
  string equals the lines joined with newline, and splitting recovers the array) fails
  on the execution of the counterexample below.
\<close>

theorem execute_stores_terminated_lines:
  assumes "execute cfg w ssid self = (None, self')"
    and "lookup_port cfg ssid = Inr port"
    and "rows = fetchall w (connection_url cfg (prepare_call cfg ssid port self))
                  (call_arguments (prepare_call cfg ssid port self))"
    and "lines = map (\<lambda>row. row ! 1) rows"
  shows "list_all (\<lambda>row. 2 \<le> length row) rows \<and>
         get_ddl_as_array self' = Inr lines \<and>
         get_ddl_as_string self' = Inr (concat (map (\<lambda>line. line @ newline) lines)) \<and>
         (list_all (\<lambda>line. CHR 0x0A \<notin> set line) lines \<longrightarrow>
            split_str (ddl_as_string self') newline = Inr (lines @ [[]]))"
proof -
  have nonempty: "request_list self \<noteq> []"
    using assms(1) by (auto simp: execute_def)
  have fetched: "fetch_ddl w rows reported = (None, self') \<Longrightarrow>
      list_all (\<lambda>row. 2 \<le> length row) rows \<and>
      executed_at_least_once self' \<and> ddl_as_array self' = lines \<and>
      ddl_as_string self' = concat (map (\<lambda>line. line @ newline) lines)" for reported
    by (auto simp: fetch_ddl_result assms(4) split: if_splits)
  have stored: "list_all (\<lambda>row. 2 \<le> length row) rows \<and>
      executed_at_least_once self' \<and> ddl_as_array self' = lines \<and>
      ddl_as_string self' = concat (map (\<lambda>line. line @ newline) lines)"
    using assms(1)
    unfolding execute_outcome [OF nonempty assms(2) refl refl refl refl] assms(3) [symmetric]
    by (auto split: if_splits dest: fetched)
  have "split_from newline [] (concat (map (\<lambda>line. line @ newline) lines)) = lines @ [[]]"
    if "list_all (\<lambda>line. CHR 0x0A \<notin> set line) lines"
    using that split_from_terminated [of lines "CHR 0x0A"]
    by (simp add: newline_def list_all_iff)
  with stored show ?thesis
    by (simp add: get_ddl_as_array_def get_ddl_as_string_def split_str_def newline_def)
qed

text \<open>A first execution of the example request, evaluated.\<close>

lemma example_request_fields:
  "request_list example_request \<noteq> []"
  "RPT_DSNAME example_request = ''TS5813.REPORT.TEMP''"
  "executed_at_least_once example_request = False"
  by (simp_all add: example_request_def add_table_def add_object_def example_instance_fields)

lemma example_lookup_port: "lookup_port example_config ''DC1A'' = Inr ''5031''"
  by (simp add: lookup_port_def example_config_def)

lemma first_execution:
  "execute example_config example_world ''DC1A'' example_request = (None, executed_once)"
proof -
  have "fst (execute example_config example_world ''DC1A'' example_request) = None"
    unfolding execute_outcome [OF example_request_fields(1) example_lookup_port refl refl refl refl]
    by (simp add: example_request_fields example_world_def fetch_ddl_result newline_def
        sublist_Cons_right)
  then show ?thesis
    by (simp add: executed_once_def prod_eq_iff)
qed

lemma executed_once_fields:
  "executed_at_least_once executed_once"
  "ddl_as_array executed_once = [''CREATE TABLE A COL1;'', ''CREATE TABLE B COL2;'']"
  "ddl_as_string executed_once =
     ''CREATE TABLE A COL1;'' @ newline @ ''CREATE TABLE B COL2;'' @ newline"
  "request_list executed_once \<noteq> []"
  "RPT_DSNAME executed_once = ''TS5813.REPORT.TEMP''"
  unfolding executed_once_def
    execute_outcome [OF example_request_fields(1) example_lookup_port refl refl refl refl]
  by (simp_all add: example_request_fields example_world_def fetch_ddl_result newline_def
      sublist_Cons_right prepare_call_frame)

theorem execute_empty_request_list_witness:
  "request_list example_instance = [] \<and>
   execute example_config example_world ''DC1A'' example_instance =
     (Some (ConfigurationError
        ''adb2re.py: request_list cannot be empty; use functions like add_table to build the list''),
      example_instance)"
  using execute_empty_request_list [of example_instance example_config example_world "''DC1A''"]
  by (simp add: example_instance_fields)

theorem assert_text_in_report_outcome_witness:
  "assert_text_in_report reported_example [''OK''] True = Inr () \<and>
   assert_text_not_in_report reported_example [''ERROR''] = Inr () \<and>
   assert_text_in_report reported_example [''OK'', ''ERROR'', ''Job''] True =
     Inl (ReportAssertionError
           (''adb2re.py Failed to find line 'ERROR' in report. Full report:'' @ newline @ newline @
            ''Job OK'' @ newline)) \<and>
   assert_text_not_in_report reported_example [''ERROR'', ''OK'', ''Job''] =
     Inl (ReportAssertionError
           (''adb2re.py Unexpectedly found line 'OK' in report. Full report:'' @ newline @ newline @
            ''Job OK'' @ newline)) \<and>
   assert_text_in_report (reported_example\<lparr>RPT_DSNAME := []\<rparr>) [''OK''] True =
     Inl (ConfigurationError ''adb2re.py: RPT_DSNAME must be set before calling execute()'')"
proof -
  have dsname: "RPT_DSNAME reported_example \<noteq> []"
    by (simp add: reported_example_def example_instance_fields)
  have report: "saved_report reported_example = ''Job OK'' @ newline"
    by (simp add: reported_example_def)
  show ?thesis
    using dsname
      assert_text_in_report_outcome [of reported_example "[''OK'']" True]
      assert_text_in_report_outcome [of reported_example "[''ERROR'']" False]
      assert_text_in_report_outcome [of reported_example "[''OK'', ''ERROR'', ''Job'']" True]
      assert_text_in_report_outcome [of reported_example "[''ERROR'', ''OK'', ''Job'']" False]
      assert_text_in_report_outcome [of "reported_example\<lparr>RPT_DSNAME := []\<rparr>" "[''OK'']" True]
    by (simp add: report newline_def quoted_def sublist_Cons_right)
qed

theorem report_validation_failure_keeps_ddl_witness:
  "fst (execute example_config failing_world ''DC1A'' executed_once) =
     Some (ReportAssertionError
            (''adb2re.py Unexpectedly found line 'SQLCODE = -805' in report. Full report:'' @
             newline @ newline @
             ''ADB2GEN - Create DDL from catalog info'' @ newline @
             ''DSNT408I SQLCODE = -805, ERROR'' @ newline)) \<and>
   get_ddl_as_array (snd (execute example_config failing_world ''DC1A'' executed_once)) =
     Inr [''CREATE TABLE A COL1;'', ''CREATE TABLE B COL2;''] \<and>
   get_ddl_as_string (snd (execute example_config failing_world ''DC1A'' executed_once)) =
     Inr (''CREATE TABLE A COL1;'' @ newline @ ''CREATE TABLE B COL2;'' @ newline) \<and>
   executed_at_least_once (snd (execute example_config failing_world ''DC1A'' executed_once))"
proof -
  let ?run = "execute example_config failing_world ''DC1A'' executed_once"
  let ?msg = "unexpected_line_message ''SQLCODE = -805''
               (''ADB2GEN - Create DDL from catalog info'' @ newline @
                ''DSNT408I SQLCODE = -805, ERROR'' @ newline)"
  have raised: "fst ?run = Some (ReportAssertionError ?msg)"
    unfolding execute_outcome [OF executed_once_fields(4) example_lookup_port refl refl refl refl]
    by (simp add: executed_once_fields failing_world_def newline_def sublist_Cons_right)
  then have run: "?run = (Some (ReportAssertionError ?msg), snd ?run)"
    by (simp add: prod_eq_iff)
  from report_validation_failure_keeps_ddl
         [of example_config failing_world "''DC1A''" executed_once ?msg "snd ?run", THEN conjunct1]
       run
  have "get_ddl_as_array (snd ?run) = get_ddl_as_array executed_once \<and>
        get_ddl_as_string (snd ?run) = get_ddl_as_string executed_once \<and>
        executed_at_least_once (snd ?run) = executed_at_least_once executed_once"
    by blast
  then have same: "get_ddl_as_array (snd ?run) = get_ddl_as_array executed_once"
      "get_ddl_as_string (snd ?run) = get_ddl_as_string executed_once"
      "executed_at_least_once (snd ?run) = executed_at_least_once executed_once"
    by blast+
  have before: "get_ddl_as_array executed_once =
        Inr [''CREATE TABLE A COL1;'', ''CREATE TABLE B COL2;'']"
      "get_ddl_as_string executed_once =
        Inr (''CREATE TABLE A COL1;'' @ newline @ ''CREATE TABLE B COL2;'' @ newline)"
      "executed_at_least_once executed_once"
    by (simp_all add: get_ddl_as_array_def get_ddl_as_string_def executed_once_fields)
  have written: "?msg =
      ''adb2re.py Unexpectedly found line 'SQLCODE = -805' in report. Full report:'' @
      newline @ newline @
      ''ADB2GEN - Create DDL from catalog info'' @ newline @
      ''DSNT408I SQLCODE = -805, ERROR'' @ newline"
    by (simp add: unexpected_line_message_def quoted_def)
  from raised same before show ?thesis
    unfolding written by (simp only: simp_thms)
qed

theorem execute_stores_terminated_lines_witness:
  "get_ddl_as_array executed_once = Inr [''CREATE TABLE A COL1;'', ''CREATE TABLE B COL2;''] \<and>
   get_ddl_as_string executed_once =
     Inr (''CREATE TABLE A COL1;'' @ newline @ ''CREATE TABLE B COL2;'' @ newline) \<and>
   split_str (ddl_as_string executed_once) newline =
     Inr [''CREATE TABLE A COL1;'', ''CREATE TABLE B COL2;'', []]"
  using execute_stores_terminated_lines
          [OF first_execution example_lookup_port refl refl]
  by (simp add: example_world_def newline_def)

theorem ddl_string_is_not_the_join_counterexample:
  "execute example_config example_world ''DC1A'' example_request = (None, executed_once) \<and>
   ddl_as_array executed_once = [''CREATE TABLE A COL1;'', ''CREATE TABLE B COL2;''] \<and>
   ddl_as_string executed_once \<noteq>
     join_str newline [''CREATE TABLE A COL1;'', ''CREATE TABLE B COL2;''] \<and>
   split_str (ddl_as_string executed_once) newline \<noteq>
     Inr [''CREATE TABLE A COL1;'', ''CREATE TABLE B COL2;'']"
  by (simp add: first_execution executed_once_fields newline_def split_str_def)

subsection \<open>The has-executed flag over the life of an instance\<close>

lemma invoke_flag: "executed_at_least_once (invoke c self) = executed_at_least_once self"
  by (cases c)
    (simp_all add: add_stogroup_def add_database_def add_object_def add_tablespace_def
      add_table_def add_view_def add_alias_def add_index_def add_user_defined_type_def
      add_user_defined_function_def add_stored_procedure_def add_sequence_def
      add_sequence_alias_def add_schema_def add_trigger_def add_synonym_def
      set_all_gen_options_def set_all_grant_options_def)

lemma Adb2re_flag: "Adb2re cfg = Inr self \<Longrightarrow> \<not> executed_at_least_once self"
  by (auto simp: Adb2re_def Let_def split: sum.splits)

lemma lifecycle_flag: "lifecycle cfg b self \<Longrightarrow> executed_at_least_once self = b"
proof (induction rule: lifecycle.induct)
  case (created cfg self)
  then show ?case by (simp add: Adb2re_flag)
next
  case (called cfg b self c)
  then show ?case by (simp add: invoke_flag)
next
  case (assigned cfg b self self')
  then show ?case by (simp add: private_unchanged_def)
next
  case (execute_stopped cfg b self w ssid e self')
  then show ?case by (simp add: execute_flag)
next
  case (execute_fetched cfg b self w ssid r self')
  then show ?case by (simp add: execute_flag)
qed

text \<open>
  C5, as amended. On an instance reached from a fresh one by calls and assignments
  during which no call of \<^verbatim>\<open>execute\<close> has completed its fetch of the DDL (a fresh
  instance in particular), each of the three accessors fails with a \<open>NotExecutedError\<close>.
  Once a call of \<^verbatim>\<open>execute\<close> has completed its fetch, whether it then returned or raised
  in the closing of the cursor, each accessor returns the stored value. An accessor is a
  function of the instance that returns a value only: it assigns nothing. The claim as
  stated speaks of a successful execution; the source sets the flag before it closes the
  cursor, so a call that raised there leaves an instance whose accessors return (the
  counterexample is further down).
\<close>

theorem accessors_need_an_execution:
  "(lifecycle cfg False self \<longrightarrow>
      get_ddl_as_array self =
        Inl (NotExecutedError ''adb2re.py: Call execute() before retrieving DDL'') \<and>
      get_ddl_as_string self =
        Inl (NotExecutedError ''adb2re.py: Call execute() before retrieving DDL'') \<and>
      get_report_as_string self =
        Inl (NotExecutedError ''adb2re.py: Call execute() before retrieving report'')) \<and>
   (lifecycle cfg True self \<longrightarrow>
      get_ddl_as_array self = Inr (ddl_as_array self) \<and>
      get_ddl_as_string self = Inr (ddl_as_string self) \<and>
      get_report_as_string self = Inr (saved_report self))"
  by (auto simp: get_ddl_as_array_def get_ddl_as_string_def get_report_as_string_def
      dest: lifecycle_flag)

lemma example_request_reached: "lifecycle example_config False example_request"
proof -
  have "lifecycle example_config False example_instance"
    using example_instance_eq by (rule created)
  then have "lifecycle example_config False (invoke (Add_table ''MYSCHEMA'' ''A'') example_instance)"
    by (rule called)
  then show ?thesis by (simp add: example_request_def)
qed

text \<open>An execution that raises in the closing of the cursor, evaluated.\<close>

lemma failed_close:
  "execute example_config closing_world ''DC1A'' example_request =
     (Some (DatabaseError ''connection reset''), closed_with_error)"
proof -
  have "fst (execute example_config closing_world ''DC1A'' example_request) =
      Some (DatabaseError ''connection reset'')"
    unfolding execute_outcome [OF example_request_fields(1) example_lookup_port refl refl refl refl]
    by (simp add: example_request_fields closing_world_def example_world_def fetch_ddl_result
        newline_def sublist_Cons_right)
  then show ?thesis
    by (simp add: closed_with_error_def prod_eq_iff)
qed

lemma closed_with_error_fields:
  "executed_at_least_once closed_with_error"
  "ddl_as_array closed_with_error = [''CREATE TABLE A COL1;'', ''CREATE TABLE B COL2;'']"
  "ddl_as_string closed_with_error =
     ''CREATE TABLE A COL1;'' @ newline @ ''CREATE TABLE B COL2;'' @ newline"
  "saved_report closed_with_error = ''ADB2GEN - Create DDL from catalog info'' @ newline"
  unfolding closed_with_error_def
    execute_outcome [OF example_request_fields(1) example_lookup_port refl refl refl refl]
  by (simp_all add: example_request_fields closing_world_def example_world_def fetch_ddl_result
      newline_def sublist_Cons_right prepare_call_frame)

theorem accessors_need_an_execution_witness:
  "get_ddl_as_array example_request =
     Inl (NotExecutedError ''adb2re.py: Call execute() before retrieving DDL'') \<and>
   get_ddl_as_string example_request =
     Inl (NotExecutedError ''adb2re.py: Call execute() before retrieving DDL'') \<and>
   get_report_as_string example_request =
     Inl (NotExecutedError ''adb2re.py: Call execute() before retrieving report'') \<and>
   get_ddl_as_array executed_once = Inr [''CREATE TABLE A COL1;'', ''CREATE TABLE B COL2;''] \<and>
   get_ddl_as_string executed_once =
     Inr (''CREATE TABLE A COL1;'' @ newline @ ''CREATE TABLE B COL2;'' @ newline) \<and>
   get_report_as_string executed_once = Inr (saved_report executed_once)"
proof -
  have after: "lifecycle example_config True executed_once"
    using example_request_reached first_execution by (rule execute_fetched) simp
  from accessors_need_an_execution [of example_config example_request, THEN conjunct1]
    example_request_reached
  have a: "get_ddl_as_array example_request =
     Inl (NotExecutedError ''adb2re.py: Call execute() before retrieving DDL'') \<and>
   get_ddl_as_string example_request =
     Inl (NotExecutedError ''adb2re.py: Call execute() before retrieving DDL'') \<and>
   get_report_as_string example_request =
     Inl (NotExecutedError ''adb2re.py: Call execute() before retrieving report'')"
    by blast
  from accessors_need_an_execution [of example_config executed_once, THEN conjunct2] after
  have "get_ddl_as_array executed_once = Inr (ddl_as_array executed_once) \<and>
      get_ddl_as_string executed_once = Inr (ddl_as_string executed_once) \<and>
      get_report_as_string executed_once = Inr (saved_report executed_once)"
    by blast
  then have b: "get_ddl_as_array executed_once =
       Inr [''CREATE TABLE A COL1;'', ''CREATE TABLE B COL2;''] \<and>
     get_ddl_as_string executed_once =
       Inr (''CREATE TABLE A COL1;'' @ newline @ ''CREATE TABLE B COL2;'' @ newline) \<and>
     get_report_as_string executed_once = Inr (saved_report executed_once)"
    by (simp only: executed_once_fields)
  from a b show ?thesis by (simp only: simp_thms)
qed

theorem accessors_after_failed_close_counterexample:
  "Adb2re example_config = Inr example_instance \<and>
   example_request = add_table ''MYSCHEMA'' ''A'' example_instance \<and>
   execute example_config closing_world ''DC1A'' example_request =
     (Some (DatabaseError ''connection reset''), closed_with_error) \<and>
   get_ddl_as_array closed_with_error =
     Inr [''CREATE TABLE A COL1;'', ''CREATE TABLE B COL2;''] \<and>
   get_ddl_as_string closed_with_error =
     Inr (''CREATE TABLE A COL1;'' @ newline @ ''CREATE TABLE B COL2;'' @ newline) \<and>
   get_report_as_string closed_with_error =
     Inr (''ADB2GEN - Create DDL from catalog info'' @ newline)"
proof -
  have "get_ddl_as_array closed_with_error =
      Inr [''CREATE TABLE A COL1;'', ''CREATE TABLE B COL2;'']"
    and "get_ddl_as_string closed_with_error =
      Inr (''CREATE TABLE A COL1;'' @ newline @ ''CREATE TABLE B COL2;'' @ newline)"
    and "get_report_as_string closed_with_error =
      Inr (''ADB2GEN - Create DDL from catalog info'' @ newline)"
    by (simp_all add: closed_with_error_fields get_ddl_as_array_def get_ddl_as_string_def
        get_report_as_string_def)
  with example_instance_eq example_request_def failed_close show ?thesis
    by (intro conjI)
qed

subsection \<open>Executions on which the checklist claims fail as stated\<close>





subsection \<open>The request list\<close>

lemma add_tables_request_list:
  "request_list (add_tables pairs self) =
     request_list self @ concat (map (\<lambda>qn. table_entry qn @ '';'') pairs)"
  by (induction pairs arbitrary: self)
    (simp_all add: add_table_def add_object_def table_entry_def quoted_def)

lemma quoted_set: "set (quoted v) = insert (CHR 0x27) (set v)"
  by (auto simp: quoted_def)

lemma table_entry_no_semicolon:
  "CHR '';'' \<notin> set (fst qn) \<Longrightarrow> CHR '';'' \<notin> set (snd qn) \<Longrightarrow> CHR '';'' \<notin> set (table_entry qn)"
  by (simp add: table_entry_def quoted_set)

lemma table_entry_not_Nil: "table_entry qn \<noteq> []"
  by (simp add: table_entry_def)

text \<open>
  C9. Starting from an empty request list, calling \<^verbatim>\<open>add_table\<close> for each pair of a
  list yields the concatenation, in insertion order, of one entry per pair, each
  terminated by a semicolon. When no qualifier or name contains a semicolon, splitting
  the request list on the semicolon yields these entries in order followed by one empty
  piece: exactly as many non-empty entries as there were calls.
\<close>

theorem add_table_round_trip:
  assumes "request_list self = []"
  shows "request_list (add_tables pairs self) =
           concat (map (\<lambda>qn. table_entry qn @ '';'') pairs) \<and>
         (list_all (\<lambda>qn. CHR '';'' \<notin> set (fst qn) \<and> CHR '';'' \<notin> set (snd qn)) pairs \<longrightarrow>
            split_str (request_list (add_tables pairs self)) '';'' =
              Inr (map table_entry pairs @ [[]]) \<and>
            filter (\<lambda>entry. entry \<noteq> []) (map table_entry pairs @ [[]]) = map table_entry pairs \<and>
            length (map table_entry pairs) = length pairs)"
proof -
  have rendered: "request_list (add_tables pairs self) =
      concat (map (\<lambda>qn. table_entry qn @ '';'') pairs)"
    using assms by (simp add: add_tables_request_list)
  have shape: "concat (map (\<lambda>qn. table_entry qn @ '';'') pairs) =
      concat (map (\<lambda>e. e @ [CHR '';'']) (map table_entry pairs))"
    by (simp add: comp_def)
  have split: "split_from '';'' [] (concat (map (\<lambda>qn. table_entry qn @ '';'') pairs)) =
      map table_entry pairs @ [[]]"
    if "list_all (\<lambda>qn. CHR '';'' \<notin> set (fst qn) \<and> CHR '';'' \<notin> set (snd qn)) pairs"
    unfolding shape
    using that
    by (intro split_from_terminated) (auto simp: list_all_iff table_entry_no_semicolon)
  have nonempty: "filter (\<lambda>entry. entry \<noteq> []) (map table_entry pairs @ [[]]) =
      map table_entry pairs"
    by (simp add: filter_id_conv table_entry_not_Nil)
  from rendered split nonempty show ?thesis
    by (simp add: split_str_def)
qed

theorem add_table_round_trip_witness:
  "request_list example_instance = [] \<and>
   request_list (add_tables [(''Q1'', ''T1''), (''Q2'', ''T2'')] example_instance) =
     ''TYPE='TB',QUAL='' @ quoted ''Q1'' @ '',NAME='' @ quoted ''T1'' @ '';'' @
     ''TYPE='TB',QUAL='' @ quoted ''Q2'' @ '',NAME='' @ quoted ''T2'' @ '';'' \<and>
   split_str (request_list (add_tables [(''Q1'', ''T1''), (''Q2'', ''T2'')] example_instance)) '';'' =
     Inr [''TYPE='TB',QUAL='' @ quoted ''Q1'' @ '',NAME='' @ quoted ''T1'',
          ''TYPE='TB',QUAL='' @ quoted ''Q2'' @ '',NAME='' @ quoted ''T2'', []]"
proof -
  let ?pairs = "[(''Q1'', ''T1''), (''Q2'', ''T2'')]"
  have sound: "list_all (\<lambda>qn. CHR '';'' \<notin> set (fst qn) \<and> CHR '';'' \<notin> set (snd qn)) ?pairs"
    by simp
  from add_table_round_trip [OF example_instance_fields(1), of ?pairs] sound
  have a: "request_list (add_tables ?pairs example_instance) =
             concat (map (\<lambda>qn. table_entry qn @ '';'') ?pairs)"
    and b: "split_str (request_list (add_tables ?pairs example_instance)) '';'' =
             Inr (map table_entry ?pairs @ [[]])"
    by blast+
  have c: "concat (map (\<lambda>qn. table_entry qn @ '';'') ?pairs) =
     ''TYPE='TB',QUAL='' @ quoted ''Q1'' @ '',NAME='' @ quoted ''T1'' @ '';'' @
     ''TYPE='TB',QUAL='' @ quoted ''Q2'' @ '',NAME='' @ quoted ''T2'' @ '';''"
    by (simp add: table_entry_def)
  have d: "map table_entry ?pairs @ [[]] =
     [''TYPE='TB',QUAL='' @ quoted ''Q1'' @ '',NAME='' @ quoted ''T1'',
      ''TYPE='TB',QUAL='' @ quoted ''Q2'' @ '',NAME='' @ quoted ''T2'', []]"
    by (simp add: table_entry_def)
  from a c have e: "request_list (add_tables ?pairs example_instance) =
     ''TYPE='TB',QUAL='' @ quoted ''Q1'' @ '',NAME='' @ quoted ''T1'' @ '';'' @
     ''TYPE='TB',QUAL='' @ quoted ''Q2'' @ '',NAME='' @ quoted ''T2'' @ '';''"
    by (rule trans)
  from b d have f: "split_str (request_list (add_tables ?pairs example_instance)) '';'' =
     Inr [''TYPE='TB',QUAL='' @ quoted ''Q1'' @ '',NAME='' @ quoted ''T1'',
          ''TYPE='TB',QUAL='' @ quoted ''Q2'' @ '',NAME='' @ quoted ''T2'', []]"
    by (simp only:)
  from example_instance_fields(1) e f show ?thesis
    by (intro conjI)
qed

subsection \<open>The parameter list\<close>

lemma suffix_concat_last_two:
  assumes "2 \<le> length fragments"
  shows "suffix (last (butlast fragments) @ last fragments) (concat fragments)"
proof -
  from assms have ne: "fragments \<noteq> []" "butlast fragments \<noteq> []"
    by (auto simp: length_0_conv [symmetric] simp del: length_0_conv)
  then have "fragments = butlast (butlast fragments) @ [last (butlast fragments), last fragments]"
    by (metis append_butlast_last_id append_Cons append_Nil append_assoc)
  then have "concat fragments =
      concat (butlast (butlast fragments)) @ last (butlast fragments) @ last fragments"
    by (metis concat.simps concat_append append_Nil2)
  then show ?thesis
    by (simp add: suffix_def)
qed

lemma parameter_list_update_same: "parameter_list (self\<lparr>parameter_list := v\<rparr>) = v"
  by simp

text \<open>
  C2. The claim is that an option still at its default is never rendered. The class body
  sets \<^verbatim>\<open>SQLCMTS = 'N'\<close>, and \<^verbatim>\<open>__build_parameter_list\<close> compares every other option
  with its own default but \<^verbatim>\<open>SQLCMTS\<close> with the empty string. So with \<^verbatim>\<open>SQLCMTS\<close> at
  its default the rendered parameter list always ends with \<^verbatim>\<open>,SQLCMTS='N';\<close>, whatever
  the other options are: the code does not do what the claim, and its own comment, say.
\<close>

theorem default_sqlcmts_is_rendered:
  assumes "SQLCMTS self = ''N''"
  shows "suffix ('',SQLCMTS='' @ quoted ''N'' @ '';'')
           (parameter_list (build_parameter_list cfg self))"
proof -
  have last_two: "(if SQLCMTS self \<noteq> [] then '',SQLCMTS='' @ quoted (SQLCMTS self) else []) @ '';'' =
      '',SQLCMTS='' @ quoted ''N'' @ '';''"
    using assms by simp
  show ?thesis
    unfolding build_parameter_list_def parameter_list_update_same last_two [symmetric]
    by (rule suffix_concat_last_two [THEN back_subst [where P = "\<lambda>s. suffix s _"]])
      (simp_all only: last.simps butlast.simps list.simps if_False if_True length_Cons simp_thms)
qed

lemma build_output_lists_parameter_list:
  "parameter_list (build_output_lists self) = parameter_list self"
  unfolding build_output_lists_def Let_def by (simp del: concat.simps)

lemma example_sqlcmts: "SQLCMTS example_request = ''N''"
  by (simp add: example_request_def add_table_def add_object_def example_instance_def
      Adb2re_def lookup_port_def example_config_def Let_def)

lemma executed_once_parameter_list:
  "parameter_list executed_once =
     parameter_list (build_parameter_list example_config
       (example_request\<lparr>PORT := ''5031'', DB2SYS := ''DC1A'', DB2ALOC := [],
                        DB2SERV := LPAR example_config @ ''DC1A''\<rparr>))"
  unfolding executed_once_def
    execute_outcome [OF example_request_fields(1) example_lookup_port refl refl refl refl]
  by (simp add: example_request_fields example_world_def fetch_ddl_result newline_def
      sublist_Cons_right prepare_call_def Let_def build_output_lists_parameter_list)

theorem default_sqlcmts_is_rendered_witness:
  "SQLCMTS example_request = ''N'' \<and>
   execute example_config example_world ''DC1A'' example_request = (None, executed_once) \<and>
   suffix ('',SQLCMTS='' @ quoted ''N'' @ '';'') (parameter_list executed_once)"
proof -
  let ?prepared = "example_request\<lparr>PORT := ''5031'', DB2SYS := ''DC1A'', DB2ALOC := [],
                        DB2SERV := LPAR example_config @ ''DC1A''\<rparr>"
  have "SQLCMTS ?prepared = ''N''"
    by (simp add: example_sqlcmts)
  then have "suffix ('',SQLCMTS='' @ quoted ''N'' @ '';'')
      (parameter_list (build_parameter_list example_config ?prepared))"
    by (rule default_sqlcmts_is_rendered)
  then have "suffix ('',SQLCMTS='' @ quoted ''N'' @ '';'') (parameter_list executed_once)"
    by (simp only: executed_once_parameter_list)
  with example_sqlcmts first_execution show ?thesis
    by (intro conjI)
qed

end
